theory Spec2Isabelle
  imports Main "HOL-Library.AList" "HOL-Library.Sublist"
begin

section \<open>Daily Motivation API: a shallow embedding of \<^verbatim>\<open>main.py\<close>\<close>

text \<open>
  The service keeps one JSON document in a file, asks a text-generation API for a
  paragraph and mails it. The model below follows \<^verbatim>\<open>main.py\<close> function by function.
  What lies outside the process is explicit: the file is a field of the \<open>world\<close> record,
  and the date, the random source, the generation API, the SMTP server and the sender
  address are fields of the \<open>env\<close> record that every handler receives.

  Modelling assumptions, all about the platform and none about the handlers:
  the interpreter loads the module (the f-string of \<^verbatim>\<open>send_email\<close> has a backslash
  inside its expression, which Python accepts from 3.12 on);
  file operations themselves succeed and the file, when it exists, holds a JSON document;
  \<^verbatim>\<open>json.dump\<close> followed by \<^verbatim>\<open>json.load\<close> gives back the same value, so the file is
  modelled by the value it holds; JSON numbers are integers; request bodies have passed
  the validation of the pydantic models before a handler runs.
\<close>

subsection \<open>Python strings and JSON values\<close>

text \<open>A Python \<^verbatim>\<open>str\<close> is a sequence of Unicode code points.\<close>

type_synonym pystr = "nat list"

definition lit :: "string \<Rightarrow> pystr" where
  "lit s = map of_char s"

datatype json =
    JNull
  | JBool bool
  | JNum int
  | JStr pystr
  | JArr "json list"
  | JObj "(pystr \<times> json) list"

text \<open>
  A \<^verbatim>\<open>dict\<close> is an association list in insertion order; \<open>map_of\<close> reads a key and
  \<open>AList.update\<close> assigns one (in place when the key exists, appended otherwise), as
  \<^verbatim>\<open>d[k] = v\<close> does.
\<close>

text \<open>
  An SMTP session has four steps; it either completes or raises at one of them.
\<close>

datatype smtp_stage = Connect | Starttls | Login | Send_message

datatype smtp_outcome = SmtpOk | SmtpFails smtp_stage

text \<open>
  The exceptions that can escape a handler without being an \<^verbatim>\<open>HTTPException\<close>;
  the framework answers them with status 500.
\<close>

datatype exn = TypeError | KeyError | AttributeError | SMTPError smtp_stage

datatype error =
    HTTPException nat pystr
  | Unhandled exn

type_synonym 'a result = "error + 'a"

definition bind :: "'a result \<Rightarrow> ('a \<Rightarrow> 'b result) \<Rightarrow> 'b result" where
  "bind r f = (case r of Inl e \<Rightarrow> Inl e | Inr x \<Rightarrow> f x)"

text \<open>The status code the framework answers with.\<close>

fun status_code :: "'a result \<Rightarrow> nat" where
  "status_code (Inr _) = 200"
| "status_code (Inl (HTTPException c _)) = c"
| "status_code (Inl (Unhandled _)) = 500"

text \<open>Truth value of a JSON value, as \<^verbatim>\<open>if not x\<close> tests it.\<close>

fun truthy :: "json \<Rightarrow> bool" where
  "truthy JNull = False"
| "truthy (JBool b) = b"
| "truthy (JNum n) = (n \<noteq> 0)"
| "truthy (JStr s) = (s \<noteq> [])"
| "truthy (JArr xs) = (xs \<noteq> [])"
| "truthy (JObj kvs) = (kvs \<noteq> [])"

text \<open>\<^verbatim>\<open>a in b\<close> on two strings: \<open>a\<close> occurs in \<open>b\<close> as a contiguous piece.\<close>

fun is_substr :: "pystr \<Rightarrow> pystr \<Rightarrow> bool" where
  "is_substr a [] = (a = [])"
| "is_substr a (c # cs) = (prefix a (c # cs) \<or> is_substr a cs)"

text \<open>
  \<^verbatim>\<open>k in data\<close> for a string \<open>k\<close>: key membership on a dict, element membership on a
  list, substring test on a string, \<^verbatim>\<open>TypeError\<close> on anything else.
\<close>

fun py_in :: "pystr \<Rightarrow> json \<Rightarrow> bool result" where
  "py_in k (JObj kvs) = Inr (map_of kvs k \<noteq> None)"
| "py_in k (JArr xs) = Inr (JStr k \<in> set xs)"
| "py_in k (JStr s) = Inr (is_substr k s)"
| "py_in k _ = Inl (Unhandled TypeError)"

text \<open>
  \<^verbatim>\<open>data[k]\<close> for a string \<open>k\<close>: the value on a dict (\<^verbatim>\<open>KeyError\<close> when the
  key is missing), \<^verbatim>\<open>TypeError\<close> on every other JSON value.
\<close>

fun py_getitem :: "json \<Rightarrow> pystr \<Rightarrow> json result" where
  "py_getitem (JObj kvs) k =
     (case map_of kvs k of Some v \<Rightarrow> Inr v | None \<Rightarrow> Inl (Unhandled KeyError))"
| "py_getitem _ k = Inl (Unhandled TypeError)"

text \<open>\<^verbatim>\<open>d[k] = v\<close>: assignment on a dict, \<^verbatim>\<open>TypeError\<close> on every other JSON value.\<close>

fun py_setitem :: "json \<Rightarrow> pystr \<Rightarrow> json \<Rightarrow> json result" where
  "py_setitem (JObj kvs) k v = Inr (JObj (AList.update k v kvs))"
| "py_setitem _ k v = Inl (Unhandled TypeError)"

text \<open>\<^verbatim>\<open>d.get(k)\<close>: only a dict has the method.\<close>

fun py_get :: "json \<Rightarrow> pystr \<Rightarrow> json option result" where
  "py_get (JObj kvs) k = Inr (map_of kvs k)"
| "py_get _ k = Inl (Unhandled AttributeError)"

text \<open>\<^verbatim>\<open>s.replace(old, new)\<close> for the two patterns the program uses.\<close>

fun replace_stars :: "pystr \<Rightarrow> pystr" where
  "replace_stars (a # b # cs) =
     (if a = 42 \<and> b = 42 then replace_stars cs else a # replace_stars (b # cs))"
| "replace_stars cs = cs"

definition replace_newlines :: "pystr \<Rightarrow> pystr" where
  "replace_newlines s = concat (map (\<lambda>c. if c = 10 then lit ''<br>'' else [c]) s)"

text \<open>\<^verbatim>\<open>s.strip()\<close>: the code points Python counts as whitespace go from both ends.\<close>

definition is_space :: "nat \<Rightarrow> bool" where
  "is_space c \<longleftrightarrow>
     (9 \<le> c \<and> c \<le> 13) \<or> (28 \<le> c \<and> c \<le> 32) \<or> c = 133 \<or> c = 160 \<or> c = 5760 \<or>
     (8192 \<le> c \<and> c \<le> 8202) \<or> c = 8232 \<or> c = 8233 \<or> c = 8239 \<or> c = 8287 \<or> c = 12288"

definition strip :: "pystr \<Rightarrow> pystr" where
  "strip s = rev (dropWhile is_space (rev (dropWhile is_space s)))"

subsection \<open>Pydantic models\<close>

record About =
  background :: pystr
  dreams :: pystr
  challenges :: pystr
  about_values :: pystr

record UserData =
  name :: pystr
  role :: pystr
  about :: About

text \<open>Both fields of an update are optional; \<open>None\<close> is a field the request left out.\<close>

record UpdateData =
  upd_role :: "pystr option"
  upd_about :: "About option"

text \<open>\<^verbatim>\<open>.dict()\<close> of the two models.\<close>

definition about_dict :: "About \<Rightarrow> json" where
  "about_dict a = JObj
     [(lit ''background'', JStr (background a)),
      (lit ''dreams'', JStr (dreams a)),
      (lit ''challenges'', JStr (challenges a)),
      (lit ''values'', JStr (about_values a))]"

definition user_dict :: "UserData \<Rightarrow> json" where
  "user_dict u = JObj
     [(lit ''name'', JStr (name u)),
      (lit ''role'', JStr (role u)),
      (lit ''about'', about_dict (about u))]"

subsection \<open>The world outside the process\<close>

text \<open>
  What \<^verbatim>\<open>model.generate_content\<close> and the \<^verbatim>\<open>.text\<close> accessor can do: raise an
  \<^verbatim>\<open>Exception\<close>, give a response that is false as a truth value, or give a response
  whose text is \<^verbatim>\<open>None\<close> or a string.
\<close>

datatype api_outcome = ApiRaises | ApiNoResponse | ApiText "pystr option"

record email =
  mail_from :: "pystr option"
  mail_to :: pystr
  mail_subject :: pystr
  mail_html :: pystr

record world =
  json_file :: "json option"
  smtp_sessions :: nat
  outbox :: "email list"

text \<open>
  \<open>json_file\<close> is the content of \<^verbatim>\<open>JSON_FILE\<close>, \<open>None\<close> when the file does not exist.
  \<open>smtp_sessions\<close> counts the SMTP sessions attempted so far and \<open>outbox\<close> lists the
  messages the server accepted.

  The environment: \<open>today\<close> is the formatted date, \<open>rnd\<close> the draw of the random
  source, \<open>api\<close> the behaviour of the generation API on a prompt, \<open>smtp\<close> the outcome
  of the n-th SMTP session, \<open>sender\<close> the configured \<^verbatim>\<open>EMAIL\<close>, and \<open>str_of\<close> is
  Python's \<^verbatim>\<open>str()\<close> on the JSON values that are neither strings nor \<^verbatim>\<open>None\<close>.
\<close>

record env =
  today :: pystr
  rnd :: nat
  api :: "pystr \<Rightarrow> api_outcome"
  smtp :: "nat \<Rightarrow> smtp_outcome"
  sender :: "pystr option"
  str_of :: "json \<Rightarrow> pystr"

subsection \<open>Helper functions\<close>

definition read_data :: "world \<Rightarrow> world \<times> json" where
  "read_data w =
     (case json_file w of
        None \<Rightarrow> (w\<lparr>json_file := Some (JObj [])\<rparr>, JObj [])
      | Some d \<Rightarrow> (w, d))"

definition write_data :: "json \<Rightarrow> world \<Rightarrow> world" where
  "write_data data w = w\<lparr>json_file := Some data\<rparr>"

definition html_body :: "pystr \<Rightarrow> pystr" where
  \<open>html_body body =
     lit ''\<newline>    <html>\<newline>        <body style="font-family: Arial, sans-serif; line-height:1.6; color:#333;">\<newline>            <p>''
     @ replace_newlines body
     @ lit ''</p>\<newline>            <p style="margin-top:20px; font-weight:bold;">- Your Daily Motivation App</p>\<newline>        </body>\<newline>    </html>\<newline>    ''\<close>

definition send_email :: "env \<Rightarrow> pystr \<Rightarrow> pystr \<Rightarrow> pystr \<Rightarrow> world \<Rightarrow> world \<times> unit result" where
  "send_email e subject body to_email w =
     (let msg = \<lparr>mail_from = sender e, mail_to = to_email, mail_subject = subject,
                 mail_html = html_body body\<rparr>;
          w1 = w\<lparr>smtp_sessions := Suc (smtp_sessions w)\<rparr>
      in case smtp e (smtp_sessions w) of
           SmtpFails st \<Rightarrow> (w1, Inl (Unhandled (SMTPError st)))
         | SmtpOk \<Rightarrow> (w1\<lparr>outbox := outbox w1 @ [msg]\<rparr>, Inr ()))"

definition tones :: "pystr list" where
  "tones = [lit ''inspirational'', lit ''energetic'', lit ''calm'', lit ''reflective'', lit ''bold'']"

definition fallback :: pystr where
  "fallback = lit ''You'' @ [8217] @
     lit ''ve already proved that effort beats everything. Keep pushing forward '' @ [8212] @
     lit '' your story is just getting started.''"

text \<open>How an f-string renders a value read from the document.\<close>

definition py_str :: "env \<Rightarrow> json option \<Rightarrow> pystr" where
  "py_str e v =
     (case v of
        None \<Rightarrow> lit ''None''
      | Some j \<Rightarrow> (case j of JNull \<Rightarrow> lit ''None'' | JStr s \<Rightarrow> s | _ \<Rightarrow> str_of e j))"

definition build_prompt ::
  "env \<Rightarrow> pystr \<Rightarrow> json option \<Rightarrow> json option \<Rightarrow> json option \<Rightarrow> json option \<Rightarrow> pystr" where
  "build_prompt e tone bg dr ch va =
     lit ''\<newline>    Today is '' @ today e @
     lit ''.\<newline>    Write a '' @ tone @
     lit '' and heartfelt good morning motivational paragraph for Shuaib, \<newline>    a Final Year B.Tech student at CUSAT. \<newline>    Background: '' @ py_str e bg @
     lit ''\<newline>    Dreams: '' @ py_str e dr @
     lit ''\<newline>    Challenges: '' @ py_str e ch @
     lit ''\<newline>    Values: '' @ py_str e va @
     lit ''\<newline>    \<newline>    Write as if you're someone who has seen his struggles and growth '' @ [8212] @
     lit '' \<newline>    make it real, emotional, and personal. Avoid sounding robotic or generic.\<newline>    Output only a single short paragraph (no bullet points, no greetings).\<newline>    ''"

text \<open>
  The prompt is built before the \<^verbatim>\<open>try\<close>, so an \<open>about\<close> that is not a dict raises
  out of the function; everything the API call does is caught.
\<close>

definition generate_motivation :: "env \<Rightarrow> json \<Rightarrow> pystr result" where
  "generate_motivation e about_v =
     (let tone = tones ! (rnd e mod length tones) in
      bind (py_get about_v (lit ''background'')) (\<lambda>bg.
      bind (py_get about_v (lit ''dreams'')) (\<lambda>dr.
      bind (py_get about_v (lit ''challenges'')) (\<lambda>ch.
      bind (py_get about_v (lit ''values'')) (\<lambda>va.
        let prompt = build_prompt e tone bg dr ch va in
        Inr (case api e prompt of
               ApiRaises \<Rightarrow> fallback
             | ApiNoResponse \<Rightarrow> fallback
             | ApiText None \<Rightarrow> fallback
             | ApiText (Some t) \<Rightarrow> if t = [] then fallback else strip t))))))"

subsection \<open>API endpoints\<close>

definition not_found :: error where
  "not_found = HTTPException 404 (lit ''User not found'')"

definition bad_input :: error where
  "bad_input = HTTPException 400 (lit ''No about section found'')"

definition recipient :: pystr where
  "recipient = lit ''shuaibkaloor123@gmail.com''"

definition create_user :: "UserData \<Rightarrow> world \<Rightarrow> world \<times> json result" where
  "create_user user w =
     (let data = JObj [(lit ''user'', user_dict user)] in
      (write_data data w,
       Inr (JObj [(lit ''message'', JStr (lit ''User data saved successfully'')),
                  (lit ''data'', user_dict user)])))"

definition get_user :: "world \<Rightarrow> world \<times> json result" where
  "get_user w =
     (let (w1, data) = read_data w in
      (w1,
       bind (py_in (lit ''user'') data) (\<lambda>found.
         if \<not> found then Inl not_found
         else bind (py_getitem data (lit ''user'')) (\<lambda>u.
           Inr (JObj [(lit ''data'', u)])))))"

text \<open>\<^verbatim>\<open>data["user"][k] = v\<close>: the inner dict changes in place, inside \<open>data\<close>.\<close>

definition assign_user_field :: "json \<Rightarrow> pystr \<Rightarrow> json \<Rightarrow> json result" where
  "assign_user_field data k v =
     bind (py_getitem data (lit ''user'')) (\<lambda>u.
     bind (py_setitem u k v) (\<lambda>u'.
       py_setitem data (lit ''user'') u'))"

definition update_user :: "UpdateData \<Rightarrow> world \<Rightarrow> world \<times> json result" where
  "update_user update w =
     (let (w1, data) = read_data w in
      case py_in (lit ''user'') data of
        Inl e \<Rightarrow> (w1, Inl e)
      | Inr found \<Rightarrow>
          if \<not> found then (w1, Inl not_found)
          else
            (case bind
                    (case upd_role update of
                       None \<Rightarrow> Inr data
                     | Some r \<Rightarrow>
                         if r = [] then Inr data
                         else assign_user_field data (lit ''role'') (JStr r))
                    (\<lambda>data1.
                       case upd_about update of
                         None \<Rightarrow> Inr data1
                       | Some a \<Rightarrow> assign_user_field data1 (lit ''about'') (about_dict a)) of
               Inl e \<Rightarrow> (w1, Inl e)
             | Inr data2 \<Rightarrow>
                 (write_data data2 w1,
                  bind (py_getitem data2 (lit ''user'')) (\<lambda>u.
                    Inr (JObj [(lit ''message'', JStr (lit ''User data updated successfully'')),
                               (lit ''data'', u)])))))"

definition motivation :: "env \<Rightarrow> world \<Rightarrow> world \<times> json result" where
  "motivation e w =
     (let (w1, data) = read_data w in
      case py_in (lit ''user'') data of
        Inl ex \<Rightarrow> (w1, Inl ex)
      | Inr found \<Rightarrow>
          if \<not> found then (w1, Inl not_found)
          else
            (case bind (py_getitem data (lit ''user'')) (\<lambda>u. py_get u (lit ''about'')) of
               Inl ex \<Rightarrow> (w1, Inl ex)
             | Inr about_opt \<Rightarrow>
                 let about_v = (case about_opt of None \<Rightarrow> JObj [] | Some a \<Rightarrow> a) in
                 if \<not> truthy about_v then (w1, Inl bad_input)
                 else
                   (case generate_motivation e about_v of
                      Inl ex \<Rightarrow> (w1, Inl ex)
                    | Inr generated \<Rightarrow>
                        let message = replace_stars generated in
                        (case send_email e (lit ''Your Daily Motivation'') message recipient w1 of
                           (w2, Inl ex) \<Rightarrow> (w2, Inl ex)
                         | (w2, Inr _) \<Rightarrow>
                             (w2, Inr (JObj [(lit ''motivation'', JStr message),
                                             (lit ''email_sent_to'', JStr recipient)]))))))"

subsection \<open>Properties of the stored document\<close>

text \<open>The document \<^verbatim>\<open>read_data\<close> returns: \<^verbatim>\<open>{}\<close> while the file does not exist.\<close>

definition stored_doc :: "world \<Rightarrow> json" where
  "stored_doc w = (case json_file w of None \<Rightarrow> JObj [] | Some d \<Rightarrow> d)"

text \<open>Field \<open>k\<close> of the stored profile, when the document is a dict with a dict under "user".\<close>

definition user_field :: "world \<Rightarrow> pystr \<Rightarrow> json option" where
  "user_field w k =
     (case stored_doc w of
        JObj kvs \<Rightarrow>
          (case map_of kvs (lit ''user'') of
             Some (JObj ukvs) \<Rightarrow> map_of ukvs k
           | _ \<Rightarrow> None)
      | _ \<Rightarrow> None)"

fun is_str :: "json \<Rightarrow> bool" where
  "is_str (JStr _) = True"
| "is_str _ = False"

text \<open>A dict whose keys are exactly \<open>ks\<close>, each once.\<close>

definition has_exactly :: "(pystr \<times> json) list \<Rightarrow> pystr list \<Rightarrow> bool" where
  "has_exactly kvs ks \<longleftrightarrow> distinct (map fst kvs) \<and> set (map fst kvs) = set ks"

definition holds_at :: "(pystr \<times> json) list \<Rightarrow> pystr \<Rightarrow> (json \<Rightarrow> bool) \<Rightarrow> bool" where
  "holds_at kvs k P = (case map_of kvs k of None \<Rightarrow> False | Some v \<Rightarrow> P v)"

fun wf_about :: "json \<Rightarrow> bool" where
  "wf_about (JObj kvs) =
     (has_exactly kvs [lit ''background'', lit ''dreams'', lit ''challenges'', lit ''values''] \<and>
      holds_at kvs (lit ''background'') is_str \<and> holds_at kvs (lit ''dreams'') is_str \<and>
      holds_at kvs (lit ''challenges'') is_str \<and> holds_at kvs (lit ''values'') is_str)"
| "wf_about _ = False"

fun wf_profile :: "json \<Rightarrow> bool" where
  "wf_profile (JObj kvs) =
     (has_exactly kvs [lit ''name'', lit ''role'', lit ''about''] \<and>
      holds_at kvs (lit ''name'') is_str \<and> holds_at kvs (lit ''role'') is_str \<and>
      holds_at kvs (lit ''about'') wf_about)"
| "wf_profile _ = False"

fun doc_ok :: "json \<Rightarrow> bool" where
  "doc_ok (JObj kvs) =
     (kvs = [] \<or> (has_exactly kvs [lit ''user''] \<and> holds_at kvs (lit ''user'') wf_profile))"
| "doc_ok _ = False"

definition storage_inv :: "world \<Rightarrow> bool" where
  "storage_inv w = doc_ok (stored_doc w)"

text \<open>
  The states the service can be in: it starts with no file or an empty document, and
  every request runs one of the exposed operations.
\<close>

inductive reachable :: "world \<Rightarrow> bool" where
  no_file: "json_file w = None \<Longrightarrow> reachable w"
| empty_doc: "json_file w = Some (JObj []) \<Longrightarrow> reachable w"
| after_read: "reachable w \<Longrightarrow> reachable (fst (read_data w))"
| after_create: "reachable w \<Longrightarrow> reachable (fst (create_user p w))"
| after_get: "reachable w \<Longrightarrow> reachable (fst (get_user w))"
| after_update: "reachable w \<Longrightarrow> reachable (fst (update_user u w))"
| after_motivation: "reachable w \<Longrightarrow> reachable (fst (motivation e w))"

text \<open>The outcomes of the generation API that the generator answers with the fallback.\<close>

fun api_failed :: "api_outcome \<Rightarrow> bool" where
  "api_failed ApiRaises = True"
| "api_failed ApiNoResponse = True"
| "api_failed (ApiText None) = True"
| "api_failed (ApiText (Some t)) = (t = [])"

subsection \<open>Concrete inputs\<close>

text \<open>The profile of the specification's example, and worlds and environments around it.\<close>

definition example_about :: About where
  "example_about = \<lparr>background = lit ''b'', dreams = lit ''d'', challenges = lit ''c'',
                     about_values = lit ''v''\<rparr>"

definition example_user :: UserData where
  "example_user = \<lparr>name = lit ''A'', role = lit ''Student'', about = example_about\<rparr>"

definition empty_about :: About where
  "empty_about = \<lparr>background = [], dreams = [], challenges = [], about_values = []\<rparr>"

definition fresh_world :: world where
  "fresh_world = \<lparr>json_file = None, smtp_sessions = 0, outbox = []\<rparr>"

definition world_with :: "json \<Rightarrow> world" where
  "world_with d = \<lparr>json_file = Some d, smtp_sessions = 0, outbox = []\<rparr>"

definition example_env :: "api_outcome \<Rightarrow> smtp_outcome \<Rightarrow> env" where
  "example_env a s =
     \<lparr>today = lit ''January 01, 2025'', rnd = 7, api = (\<lambda>_. a), smtp = (\<lambda>_. s),
      sender = Some (lit ''app@example.com''), str_of = (\<lambda>_. [])\<rparr>"

section \<open>Lemmas\<close>

subsection \<open>Strings and dicts\<close>

lemma lit_eq_iff [simp]: "lit a = lit b \<longleftrightarrow> a = b"
  unfolding lit_def by (simp add: inj_on_def)

lemma lit_Nil_iff [simp]: "lit a = [] \<longleftrightarrow> a = []"
  by (simp add: lit_def)

lemma replace_stars_no_star: "42 \<notin> set s \<Longrightarrow> replace_stars s = s"
  by (induction s rule: replace_stars.induct) auto

lemma fallback_no_star: "42 \<notin> set fallback"
  by (simp add: fallback_def lit_def)

lemma replace_stars_fallback: "replace_stars fallback = fallback"
  by (rule replace_stars_no_star [OF fallback_no_star])

lemma replace_stars_head: "b \<noteq> 42 \<Longrightarrow> replace_stars (b # cs) = b # replace_stars cs"
  by (cases cs) simp_all

text \<open>One pass of the replacement leaves no marker behind.\<close>

lemma replace_stars_clean: "\<not> is_substr [42, 42] (replace_stars s)"
proof (induction s rule: replace_stars.induct)
  case (1 a b cs)
  show ?case
  proof (cases "a = 42 \<and> b = 42")
    case True
    with 1 show ?thesis by simp
  next
    case False
    with 1 have ih: "\<not> is_substr [42, 42] (replace_stars (b # cs))" by simp
    show ?thesis
    proof (cases "a = 42")
      case True
      with False have "b \<noteq> 42" by simp
      then show ?thesis using ih False by (simp add: replace_stars_head)
    next
      case False
      then show ?thesis using ih by simp
    qed
  qed
qed simp_all

lemma has_exactly_update:
  "has_exactly kvs ks \<Longrightarrow> k \<in> set ks \<Longrightarrow> has_exactly (AList.update k v kvs) ks"
  by (auto simp add: has_exactly_def distinct_update dom_update)

lemma holds_at_update:
  "holds_at (AList.update k v kvs) k' P = (if k' = k then P v else holds_at kvs k' P)"
  by (simp add: holds_at_def update_conv')

lemma wf_about_dict: "wf_about (about_dict a)"
  by (simp add: about_dict_def has_exactly_def holds_at_def)

lemma wf_user_dict: "wf_profile (user_dict p)"
  by (simp add: user_dict_def has_exactly_def holds_at_def wf_about_dict)

lemma wf_profile_role:
  "wf_profile (JObj ukvs) \<Longrightarrow> wf_profile (JObj (AList.update (lit ''role'') (JStr r) ukvs))"
  by (simp add: has_exactly_update holds_at_update)

lemma wf_profile_about:
  "wf_profile (JObj ukvs) \<Longrightarrow>
   wf_profile (JObj (AList.update (lit ''about'') (about_dict a) ukvs))"
  by (simp add: has_exactly_update holds_at_update wf_about_dict)

subsection \<open>The storage accessor\<close>

lemma read_data_eq: "read_data w = (w\<lparr>json_file := Some (stored_doc w)\<rparr>, stored_doc w)"
  by (simp add: read_data_def stored_doc_def split: option.splits)

lemma stored_doc_update [simp]: "stored_doc (w\<lparr>json_file := Some d\<rparr>) = d"
  by (simp add: stored_doc_def)

lemma stored_doc_read: "stored_doc (fst (read_data w)) = stored_doc w"
  by (simp add: read_data_eq)

subsection \<open>Generator and notifier\<close>

lemma generate_motivation_dict:
  "generate_motivation e (JObj kvs) =
     Inr (case api e (build_prompt e (tones ! (rnd e mod length tones))
                    (map_of kvs (lit ''background'')) (map_of kvs (lit ''dreams''))
                    (map_of kvs (lit ''challenges'')) (map_of kvs (lit ''values''))) of
            ApiRaises \<Rightarrow> fallback
          | ApiNoResponse \<Rightarrow> fallback
          | ApiText None \<Rightarrow> fallback
          | ApiText (Some t) \<Rightarrow> if t = [] then fallback else strip t)"
  by (simp add: generate_motivation_def bind_def Let_def)

lemma generate_motivation_total: "\<exists>g. generate_motivation e (JObj kvs) = Inr g"
  by (simp add: generate_motivation_dict)

lemma generate_motivation_failed:
  "api_failed (api e (build_prompt e (tones ! (rnd e mod length tones))
        (map_of kvs (lit ''background'')) (map_of kvs (lit ''dreams''))
        (map_of kvs (lit ''challenges'')) (map_of kvs (lit ''values'')))) \<Longrightarrow>
   generate_motivation e (JObj kvs) = Inr fallback"
  by (auto simp add: generate_motivation_dict split: api_outcome.splits option.splits)

lemma send_email_cases:
  "send_email e s b t w =
     (case smtp e (smtp_sessions w) of
        SmtpFails st \<Rightarrow>
          (w\<lparr>smtp_sessions := Suc (smtp_sessions w)\<rparr>, Inl (Unhandled (SMTPError st)))
      | SmtpOk \<Rightarrow>
          (w\<lparr>smtp_sessions := Suc (smtp_sessions w),
             outbox := outbox w @ [\<lparr>mail_from = sender e, mail_to = t, mail_subject = s,
                                    mail_html = html_body b\<rparr>]\<rparr>, Inr ()))"
  by (simp add: send_email_def Let_def split: smtp_outcome.splits)

lemma json_file_send:
  "send_email e s b t w = (w2, r) \<Longrightarrow> json_file w2 = json_file w"
  by (auto simp add: send_email_def Let_def split: smtp_outcome.splits)

subsection \<open>The handlers on a stored profile\<close>

lemma stored_doc_get: "stored_doc (fst (get_user w)) = stored_doc w"
  by (simp add: get_user_def read_data_eq)

lemma stored_doc_motivation: "stored_doc (fst (motivation e w)) = stored_doc w"
proof -
  have "json_file (fst (motivation e w)) = Some (stored_doc w)"
    by (auto simp add: motivation_def read_data_eq Let_def
        split: sum.splits prod.splits dest: json_file_send)
  then show ?thesis by (simp add: stored_doc_def)
qed

lemma user_field_dict:
  "stored_doc w = JObj dkvs \<Longrightarrow> map_of dkvs (lit ''user'') = Some (JObj ukvs) \<Longrightarrow>
   user_field w k = map_of ukvs k"
  by (simp add: user_field_def)

text \<open>What \<^verbatim>\<open>update_user\<close> writes when a profile is stored.\<close>

lemma update_user_dict:
  assumes "stored_doc w = JObj dkvs" "map_of dkvs (lit ''user'') = Some (JObj ukvs)"
  shows "fst (update_user u w) = w\<lparr>json_file := Some (JObj (AList.update (lit ''user'')
           (JObj ((case upd_about u of None \<Rightarrow> id
                    | Some a \<Rightarrow> AList.update (lit ''about'') (about_dict a))
                  ((case upd_role u of None \<Rightarrow> id
                     | Some r \<Rightarrow> if r = [] then id else AList.update (lit ''role'') (JStr r))
                   ukvs)))
           dkvs))\<rparr>"
  using assms
  by (simp add: update_user_def read_data_eq bind_def assign_user_field_def write_data_def
      update_conv' update_triv split: option.splits)

text \<open>What \<^verbatim>\<open>motivation\<close> does once the stored \<open>about\<close> is a non-empty dict.\<close>

lemma motivation_dict:
  assumes "stored_doc w = JObj dkvs" "map_of dkvs (lit ''user'') = Some (JObj ukvs)"
    "map_of ukvs (lit ''about'') = Some (JObj kvs)" "kvs \<noteq> []"
    "generate_motivation e (JObj kvs) = Inr g"
  shows "motivation e w =
     (case send_email e (lit ''Your Daily Motivation'') (replace_stars g) recipient
             (w\<lparr>json_file := Some (stored_doc w)\<rparr>) of
        (w2, Inl ex) \<Rightarrow> (w2, Inl ex)
      | (w2, Inr _) \<Rightarrow> (w2, Inr (JObj [(lit ''motivation'', JStr (replace_stars g)),
                                         (lit ''email_sent_to'', JStr recipient)])))"
  using assms by (simp add: motivation_def read_data_eq bind_def Let_def)

lemma motivation_no_about:
  assumes "stored_doc w = JObj dkvs" "map_of dkvs (lit ''user'') = Some (JObj ukvs)"
    "map_of ukvs (lit ''about'') = None \<or> map_of ukvs (lit ''about'') = Some (JObj [])"
  shows "motivation e w = (w\<lparr>json_file := Some (stored_doc w)\<rparr>, Inl bad_input)"
  using assms by (auto simp add: motivation_def read_data_eq bind_def Let_def)

subsection \<open>The storage invariant, operation by operation\<close>

lemma storage_inv_create: "storage_inv (fst (create_user p w))"
  by (simp add: storage_inv_def create_user_def write_data_def has_exactly_def holds_at_def
      wf_user_dict)

lemma storage_inv_update:
  assumes "storage_inv w"
  shows "storage_inv (fst (update_user u w))"
proof -
  from assms obtain dkvs where d: "stored_doc w = JObj dkvs"
    by (cases "stored_doc w") (simp_all add: storage_inv_def)
  show ?thesis
  proof (cases "dkvs = []")
    case True
    with d have "stored_doc (fst (update_user u w)) = stored_doc w"
      by (simp add: update_user_def read_data_eq)
    with assms show ?thesis by (simp add: storage_inv_def)
  next
    case False
    with assms d have h: "has_exactly dkvs [lit ''user'']"
      and p: "holds_at dkvs (lit ''user'') wf_profile"
      by (simp_all add: storage_inv_def)
    from p obtain uv where uv: "map_of dkvs (lit ''user'') = Some uv" "wf_profile uv"
      by (auto simp add: holds_at_def split: option.splits)
    then obtain ukvs where ukvs: "uv = JObj ukvs" by (cases uv) simp_all
    have m: "map_of dkvs (lit ''user'') = Some (JObj ukvs)" using uv ukvs by simp
    have wf: "wf_profile (JObj ukvs)" using uv ukvs by simp
    have wf1: "wf_profile (JObj ((case upd_role u of None \<Rightarrow> id
                     | Some r \<Rightarrow> if r = [] then id else AList.update (lit ''role'') (JStr r))
                   ukvs))"
      using wf wf_profile_role by (simp split: option.splits)
    have wf2: "wf_profile (JObj ((case upd_about u of None \<Rightarrow> id
                     | Some a \<Rightarrow> AList.update (lit ''about'') (about_dict a))
                  ((case upd_role u of None \<Rightarrow> id
                     | Some r \<Rightarrow> if r = [] then id else AList.update (lit ''role'') (JStr r))
                   ukvs)))"
      using wf1 wf_profile_about by (simp split: option.splits)
    show ?thesis
      using h wf2
      by (simp add: storage_inv_def update_user_dict [OF d m] has_exactly_update
          holds_at_update del: wf_profile.simps)
  qed
qed

lemma reachable_inv: "reachable w \<Longrightarrow> storage_inv w"
proof (induction rule: reachable.induct)
  case (no_file w)
  then show ?case by (simp add: storage_inv_def stored_doc_def)
next
  case (empty_doc w)
  then show ?case by (simp add: storage_inv_def stored_doc_def)
next
  case (after_read w)
  then show ?case by (simp add: storage_inv_def stored_doc_read)
next
  case (after_create w p)
  show ?case by (rule storage_inv_create)
next
  case (after_get w)
  then show ?case by (simp add: storage_inv_def stored_doc_get)
next
  case (after_update w u)
  from after_update.IH show ?case by (rule storage_inv_update)
next
  case (after_motivation w e)
  then show ?case by (simp add: storage_inv_def stored_doc_motivation)
qed

subsection \<open>Evaluation at the concrete inputs\<close>

lemma example_world_doc:
  "stored_doc (world_with (JObj [(lit ''user'', user_dict p)])) =
     JObj [(lit ''user'', user_dict p)]"
  by (simp add: world_with_def stored_doc_def)

lemma user_dict_obj:
  "user_dict p = JObj [(lit ''name'', JStr (name p)), (lit ''role'', JStr (role p)),
                       (lit ''about'', about_dict (about p))]"
  by (simp add: user_dict_def)

section \<open>The claims\<close>

text \<open>
  C1. For every profile \<open>p\<close>, \<^verbatim>\<open>create_user\<close> replaces the stored document with
  \<^verbatim>\<open>{"user": p}\<close> whatever was stored before, and \<^verbatim>\<open>get_user\<close> right after it
  returns exactly \<open>p\<close>, field by field, and changes nothing.
\<close>

theorem create_user_roundtrip:
  "fst (create_user p w) =
     w\<lparr>json_file := Some (JObj [(lit ''user'',
        JObj [(lit ''name'', JStr (name p)),
              (lit ''role'', JStr (role p)),
              (lit ''about'',
               JObj [(lit ''background'', JStr (background (about p))),
                     (lit ''dreams'', JStr (dreams (about p))),
                     (lit ''challenges'', JStr (challenges (about p))),
                     (lit ''values'', JStr (about_values (about p)))])])])\<rparr> \<and>
   get_user (fst (create_user p w)) =
     (fst (create_user p w),
      Inr (JObj [(lit ''data'',
        JObj [(lit ''name'', JStr (name p)),
              (lit ''role'', JStr (role p)),
              (lit ''about'',
               JObj [(lit ''background'', JStr (background (about p))),
                     (lit ''dreams'', JStr (dreams (about p))),
                     (lit ''challenges'', JStr (challenges (about p))),
                     (lit ''values'', JStr (about_values (about p)))])])]))"
  by (simp add: create_user_def write_data_def get_user_def read_data_def bind_def
      user_dict_def about_dict_def)

theorem create_user_roundtrip_witness:
  "get_user (fst (create_user example_user fresh_world)) =
     (\<lparr>json_file = Some (JObj [(lit ''user'',
          JObj [(lit ''name'', JStr (lit ''A'')),
                (lit ''role'', JStr (lit ''Student'')),
                (lit ''about'',
                 JObj [(lit ''background'', JStr (lit ''b'')),
                       (lit ''dreams'', JStr (lit ''d'')),
                       (lit ''challenges'', JStr (lit ''c'')),
                       (lit ''values'', JStr (lit ''v''))])])]),
        smtp_sessions = 0, outbox = []\<rparr>,
      Inr (JObj [(lit ''data'',
          JObj [(lit ''name'', JStr (lit ''A'')),
                (lit ''role'', JStr (lit ''Student'')),
                (lit ''about'',
                 JObj [(lit ''background'', JStr (lit ''b'')),
                       (lit ''dreams'', JStr (lit ''d'')),
                       (lit ''challenges'', JStr (lit ''c'')),
                       (lit ''values'', JStr (lit ''v''))])])]))"
proof -
  have f: "name example_user = lit ''A''" "role example_user = lit ''Student''"
    "background (about example_user) = lit ''b''" "dreams (about example_user) = lit ''d''"
    "challenges (about example_user) = lit ''c''" "about_values (about example_user) = lit ''v''"
    by (simp_all add: example_user_def example_about_def)
  have w: "fst (create_user example_user fresh_world) =
      fresh_world\<lparr>json_file := Some (JObj [(lit ''user'',
        JObj [(lit ''name'', JStr (lit ''A'')),
              (lit ''role'', JStr (lit ''Student'')),
              (lit ''about'',
               JObj [(lit ''background'', JStr (lit ''b'')),
                     (lit ''dreams'', JStr (lit ''d'')),
                     (lit ''challenges'', JStr (lit ''c'')),
                     (lit ''values'', JStr (lit ''v''))])])])\<rparr>"
    using create_user_roundtrip [of example_user fresh_world, THEN conjunct1]
    unfolding f .
  have g: "get_user (fst (create_user example_user fresh_world)) =
     (fst (create_user example_user fresh_world),
      Inr (JObj [(lit ''data'',
        JObj [(lit ''name'', JStr (lit ''A'')),
              (lit ''role'', JStr (lit ''Student'')),
              (lit ''about'',
               JObj [(lit ''background'', JStr (lit ''b'')),
                     (lit ''dreams'', JStr (lit ''d'')),
                     (lit ''challenges'', JStr (lit ''c'')),
                     (lit ''values'', JStr (lit ''v''))])])]))"
    using create_user_roundtrip [of example_user fresh_world, THEN conjunct2]
    unfolding f .
  have fw: "fresh_world\<lparr>json_file := Some d\<rparr> =
      \<lparr>json_file = Some d, smtp_sessions = 0, outbox = []\<rparr>" for d
    by (simp add: fresh_world_def)
  show ?thesis
    unfolding g unfolding w fw by (rule refl)
qed

text \<open>
  C2. On every \<open>about\<close> record \<^verbatim>\<open>generate_motivation\<close> returns a message and raises
  nothing. When the API call raises, or the response or its text is missing or empty,
  the message is the fixed fallback sentence, and a \<^verbatim>\<open>motivation\<close> request on a stored
  profile with that \<open>about\<close> answers 200 with the fallback as its message, provided the
  mail is sent.
\<close>

theorem generate_motivation_fallback:
  "(\<exists>m. generate_motivation e (JObj kvs) = Inr m) \<and>
   (api_failed (api e (build_prompt e (tones ! (rnd e mod length tones))
        (map_of kvs (lit ''background'')) (map_of kvs (lit ''dreams''))
        (map_of kvs (lit ''challenges'')) (map_of kvs (lit ''values'')))) \<longrightarrow>
      generate_motivation e (JObj kvs) = Inr fallback \<and>
      (stored_doc w = JObj dkvs \<and> map_of dkvs (lit ''user'') = Some (JObj ukvs) \<and>
       map_of ukvs (lit ''about'') = Some (JObj kvs) \<and> kvs \<noteq> [] \<and>
       smtp e (smtp_sessions w) = SmtpOk \<longrightarrow>
         snd (motivation e w) =
           Inr (JObj [(lit ''motivation'', JStr fallback),
                      (lit ''email_sent_to'', JStr recipient)]) \<and>
         status_code (snd (motivation e w)) = 200))"
proof -
  have handler: "snd (motivation e w) =
           Inr (JObj [(lit ''motivation'', JStr fallback),
                      (lit ''email_sent_to'', JStr recipient)])"
    if g: "generate_motivation e (JObj kvs) = Inr fallback"
      and a: "stored_doc w = JObj dkvs" "map_of dkvs (lit ''user'') = Some (JObj ukvs)"
        "map_of ukvs (lit ''about'') = Some (JObj kvs)" "kvs \<noteq> []"
      and s: "smtp e (smtp_sessions w) = SmtpOk"
    using s by (simp add: motivation_dict [OF a g] replace_stars_fallback send_email_cases)
  show ?thesis
    using generate_motivation_total [of e kvs] generate_motivation_failed [of e kvs] handler
    by auto
qed

theorem generate_motivation_fallback_witness:
  "generate_motivation (example_env ApiRaises SmtpOk) (about_dict example_about) = Inr fallback \<and>
   snd (motivation (example_env ApiRaises SmtpOk)
          (world_with (JObj [(lit ''user'', user_dict example_user)]))) =
     Inr (JObj [(lit ''motivation'', JStr fallback), (lit ''email_sent_to'', JStr recipient)]) \<and>
   status_code (snd (motivation (example_env ApiRaises SmtpOk)
          (world_with (JObj [(lit ''user'', user_dict example_user)])))) = 200"
proof -
  let ?e = "example_env ApiRaises SmtpOk"
  let ?kvs = "[(lit ''background'', JStr (lit ''b'')), (lit ''dreams'', JStr (lit ''d'')),
               (lit ''challenges'', JStr (lit ''c'')), (lit ''values'', JStr (lit ''v''))]"
  let ?ukvs = "[(lit ''name'', JStr (lit ''A'')), (lit ''role'', JStr (lit ''Student'')),
                (lit ''about'', JObj ?kvs)]"
  let ?dkvs = "[(lit ''user'', JObj ?ukvs)]"
  let ?w = "world_with (JObj ?dkvs)"
  have ad: "about_dict example_about = JObj ?kvs"
    by (simp add: about_dict_def example_about_def)
  have ud: "user_dict example_user = JObj ?ukvs"
    by (simp add: user_dict_def about_dict_def example_user_def example_about_def)
  have f: "api_failed (api ?e (build_prompt ?e (tones ! (rnd ?e mod length tones))
        (map_of ?kvs (lit ''background'')) (map_of ?kvs (lit ''dreams''))
        (map_of ?kvs (lit ''challenges'')) (map_of ?kvs (lit ''values''))))"
    by (simp add: example_env_def)
  have a: "stored_doc ?w = JObj ?dkvs \<and> map_of ?dkvs (lit ''user'') = Some (JObj ?ukvs) \<and>
       map_of ?ukvs (lit ''about'') = Some (JObj ?kvs) \<and> ?kvs \<noteq> [] \<and>
       smtp ?e (smtp_sessions ?w) = SmtpOk"
    by (simp add: world_with_def stored_doc_def example_env_def)
  show ?thesis
    unfolding ad ud
    using generate_motivation_fallback [of ?e ?kvs ?w ?dkvs ?ukvs] f a by blast
qed

text \<open>
  C3. While the stored document has no "user" key, which includes the state before any
  \<^verbatim>\<open>create_user\<close>, each of \<^verbatim>\<open>get_user\<close>, \<^verbatim>\<open>update_user\<close> and \<^verbatim>\<open>motivation\<close> fails with
  status 404 and detail "User not found", and the stored document is the same afterwards
  (a file that did not exist now holds the empty document it was read as).
\<close>

theorem not_found_without_user:
  assumes "stored_doc w = JObj kvs" and "map_of kvs (lit ''user'') = None"
  shows "snd (get_user w) = Inl (HTTPException 404 (lit ''User not found'')) \<and>
         snd (update_user u w) = Inl (HTTPException 404 (lit ''User not found'')) \<and>
         snd (motivation e w) = Inl (HTTPException 404 (lit ''User not found'')) \<and>
         fst (get_user w) = w\<lparr>json_file := Some (stored_doc w)\<rparr> \<and>
         fst (update_user u w) = w\<lparr>json_file := Some (stored_doc w)\<rparr> \<and>
         fst (motivation e w) = w\<lparr>json_file := Some (stored_doc w)\<rparr> \<and>
         stored_doc (fst (get_user w)) = stored_doc w \<and>
         stored_doc (fst (update_user u w)) = stored_doc w \<and>
         stored_doc (fst (motivation e w)) = stored_doc w"
  using assms
  by (simp add: get_user_def update_user_def motivation_def read_data_eq bind_def not_found_def)

theorem not_found_without_user_witness:
  "stored_doc fresh_world = JObj [] \<and>
   snd (get_user fresh_world) = Inl (HTTPException 404 (lit ''User not found'')) \<and>
   snd (update_user \<lparr>upd_role = Some (lit ''Engineer''), upd_about = Some example_about\<rparr>
          fresh_world) = Inl (HTTPException 404 (lit ''User not found'')) \<and>
   snd (motivation (example_env ApiRaises SmtpOk) fresh_world) =
     Inl (HTTPException 404 (lit ''User not found'')) \<and>
   stored_doc (fst (get_user fresh_world)) = JObj []"
proof -
  have d: "stored_doc fresh_world = JObj []"
    by (simp add: fresh_world_def stored_doc_def)
  have k: "map_of ([] :: (pystr \<times> json) list) (lit ''user'') = None" by simp
  show ?thesis
    using d not_found_without_user [OF d k,
        of "\<lparr>upd_role = Some (lit ''Engineer''), upd_about = Some example_about\<rparr>"
           "example_env ApiRaises SmtpOk"]
    by simp
qed

text \<open>
  C4. In every reachable state the stored document is either empty or has exactly the
  key "user" holding a well-formed profile (name and role strings, \<open>about\<close> with its four
  string fields), and each of \<^verbatim>\<open>create_user\<close>, \<^verbatim>\<open>get_user\<close>, \<^verbatim>\<open>update_user\<close>,
  \<^verbatim>\<open>motivation\<close> and \<^verbatim>\<open>read_data\<close> keeps it so.
\<close>

theorem storage_invariant:
  "(reachable w \<longrightarrow> storage_inv w) \<and>
   (storage_inv w \<longrightarrow>
      storage_inv (fst (create_user p w)) \<and> storage_inv (fst (get_user w)) \<and>
      storage_inv (fst (update_user u w)) \<and> storage_inv (fst (motivation e w)) \<and>
      storage_inv (fst (read_data w)))"
  using reachable_inv [of w] storage_inv_create [of p w] storage_inv_update [of w u]
  by (simp add: storage_inv_def stored_doc_get stored_doc_motivation stored_doc_read)

theorem storage_invariant_witness:
  "reachable (fst (create_user example_user fresh_world)) \<and>
   storage_inv (fst (create_user example_user fresh_world)) \<and>
   storage_inv (fst (update_user \<lparr>upd_role = Some (lit ''Engineer''), upd_about = Some empty_about\<rparr>
                       (fst (create_user example_user fresh_world))))"
proof -
  have "reachable fresh_world"
    by (rule reachable.no_file) (simp add: fresh_world_def)
  then have r: "reachable (fst (create_user example_user fresh_world))"
    by (rule reachable.after_create)
  show ?thesis
    using r storage_invariant [of "fst (create_user example_user fresh_world)" example_user
        "\<lparr>upd_role = Some (lit ''Engineer''), upd_about = Some empty_about\<rparr>"
        "example_env ApiRaises SmtpOk"]
    by simp
qed

text \<open>
  C5. With a profile stored, an update that supplies only a role changes no other field
  of the profile, so \<open>about\<close> and \<open>name\<close> stay; an update that supplies only \<open>about\<close>
  changes no other field, so \<open>role\<close> and \<open>name\<close> stay. Whenever \<open>about\<close> is supplied,
  what is stored under "about" afterwards is the supplied record with its four fields
  and nothing of the record stored before; and no update touches a field other than
  \<open>role\<close> and \<open>about\<close>.
\<close>

theorem update_user_frame:
  assumes "stored_doc w = JObj dkvs" and "map_of dkvs (lit ''user'') = Some (JObj ukvs)"
  shows "(upd_about u = None \<and> k \<noteq> lit ''role'' \<longrightarrow>
            user_field (fst (update_user u w)) k = user_field w k) \<and>
         (upd_role u = None \<and> upd_about u = Some a \<and> k \<noteq> lit ''about'' \<longrightarrow>
            user_field (fst (update_user u w)) k = user_field w k) \<and>
         (upd_about u = Some a \<longrightarrow>
            user_field (fst (update_user u w)) (lit ''about'') =
              Some (JObj [(lit ''background'', JStr (background a)),
                          (lit ''dreams'', JStr (dreams a)),
                          (lit ''challenges'', JStr (challenges a)),
                          (lit ''values'', JStr (about_values a))])) \<and>
         (k \<noteq> lit ''role'' \<and> k \<noteq> lit ''about'' \<longrightarrow>
            user_field (fst (update_user u w)) k = user_field w k)"
  using assms
  by (auto simp add: update_user_dict [OF assms] user_field_def update_conv' about_dict_def
      split: option.splits)

theorem update_user_frame_witness:
  "user_field (fst (update_user \<lparr>upd_role = Some (lit ''Engineer''), upd_about = None\<rparr>
        (world_with (JObj [(lit ''user'', user_dict example_user)])))) (lit ''about'') =
     Some (JObj [(lit ''background'', JStr (lit ''b'')), (lit ''dreams'', JStr (lit ''d'')),
                 (lit ''challenges'', JStr (lit ''c'')), (lit ''values'', JStr (lit ''v''))]) \<and>
   user_field (fst (update_user \<lparr>upd_role = Some (lit ''Engineer''), upd_about = None\<rparr>
        (world_with (JObj [(lit ''user'', user_dict example_user)])))) (lit ''name'') =
     Some (JStr (lit ''A'')) \<and>
   user_field (fst (update_user
        \<lparr>upd_role = None,
           upd_about = Some \<lparr>background = lit ''w'', dreams = lit ''x'',
                              challenges = lit ''y'', about_values = lit ''z''\<rparr>\<rparr>
        (world_with (JObj [(lit ''user'', user_dict example_user)])))) (lit ''about'') =
     Some (JObj [(lit ''background'', JStr (lit ''w'')), (lit ''dreams'', JStr (lit ''x'')),
                 (lit ''challenges'', JStr (lit ''y'')), (lit ''values'', JStr (lit ''z''))]) \<and>
   user_field (fst (update_user
        \<lparr>upd_role = None,
           upd_about = Some \<lparr>background = lit ''w'', dreams = lit ''x'',
                              challenges = lit ''y'', about_values = lit ''z''\<rparr>\<rparr>
        (world_with (JObj [(lit ''user'', user_dict example_user)])))) (lit ''role'') =
     Some (JStr (lit ''Student''))"
proof -
  let ?w = "world_with (JObj [(lit ''user'', user_dict example_user)])"
  let ?ukvs = "[(lit ''name'', JStr (name example_user)), (lit ''role'', JStr (role example_user)),
                (lit ''about'', about_dict (about example_user))]"
  let ?a = "\<lparr>background = lit ''w'', dreams = lit ''x'',
             challenges = lit ''y'', about_values = lit ''z''\<rparr>"
  let ?u1 = "\<lparr>upd_role = Some (lit ''Engineer''), upd_about = None\<rparr>"
  let ?u2 = "\<lparr>upd_role = None, upd_about = Some ?a\<rparr>"
  have d: "stored_doc ?w = JObj [(lit ''user'', user_dict example_user)]"
    by (rule example_world_doc)
  have m: "map_of [(lit ''user'', user_dict example_user)] (lit ''user'') = Some (JObj ?ukvs)"
    by (simp add: user_dict_obj)
  have before:
    "user_field ?w (lit ''about'') =
       Some (JObj [(lit ''background'', JStr (lit ''b'')), (lit ''dreams'', JStr (lit ''d'')),
                   (lit ''challenges'', JStr (lit ''c'')), (lit ''values'', JStr (lit ''v''))])"
    "user_field ?w (lit ''name'') = Some (JStr (lit ''A''))"
    "user_field ?w (lit ''role'') = Some (JStr (lit ''Student''))"
    unfolding user_field_dict [OF d m]
    by (simp_all add: example_user_def example_about_def about_dict_def)
  have 1: "user_field (fst (update_user ?u1 ?w)) (lit ''about'') = user_field ?w (lit ''about'')"
    using update_user_frame [OF d m, of ?u1 "lit ''about''"] by simp
  have 2: "user_field (fst (update_user ?u1 ?w)) (lit ''name'') = user_field ?w (lit ''name'')"
    using update_user_frame [OF d m, of ?u1 "lit ''name''"] by simp
  have 3: "user_field (fst (update_user ?u2 ?w)) (lit ''about'') =
       Some (JObj [(lit ''background'', JStr (lit ''w'')), (lit ''dreams'', JStr (lit ''x'')),
                   (lit ''challenges'', JStr (lit ''y'')), (lit ''values'', JStr (lit ''z''))])"
    using update_user_frame [OF d m, of ?u2 "lit ''about''" ?a] by simp
  have 4: "user_field (fst (update_user ?u2 ?w)) (lit ''role'') = user_field ?w (lit ''role'')"
    using update_user_frame [OF d m, of ?u2 "lit ''role''" ?a] by simp
  show ?thesis
    unfolding 1 2 3 4 before by simp
qed

text \<open>
  C6. With a profile stored, \<^verbatim>\<open>update_user\<close> overwrites the stored role exactly when the
  update carries a non-empty role: a role that is absent or the empty string leaves the
  stored role as it was, and any non-empty role becomes the stored role.
\<close>

theorem update_user_role_iff:
  assumes "stored_doc w = JObj dkvs" and "map_of dkvs (lit ''user'') = Some (JObj ukvs)"
  shows "user_field (fst (update_user u w)) (lit ''role'') =
           (case upd_role u of
              None \<Rightarrow> user_field w (lit ''role'')
            | Some r \<Rightarrow> if r = [] then user_field w (lit ''role'') else Some (JStr r))"
  using assms
  by (auto simp add: update_user_dict [OF assms] user_field_def update_conv' split: option.splits)

theorem update_user_role_iff_witness:
  "user_field (fst (update_user \<lparr>upd_role = Some (lit ''Engineer''), upd_about = None\<rparr>
        (world_with (JObj [(lit ''user'', user_dict example_user)])))) (lit ''role'') =
     Some (JStr (lit ''Engineer'')) \<and>
   user_field (fst (update_user \<lparr>upd_role = Some [], upd_about = None\<rparr>
        (world_with (JObj [(lit ''user'', user_dict example_user)])))) (lit ''role'') =
     Some (JStr (lit ''Student'')) \<and>
   user_field (fst (update_user \<lparr>upd_role = None, upd_about = Some empty_about\<rparr>
        (world_with (JObj [(lit ''user'', user_dict example_user)])))) (lit ''role'') =
     Some (JStr (lit ''Student''))"
proof -
  let ?w = "world_with (JObj [(lit ''user'', user_dict example_user)])"
  let ?ukvs = "[(lit ''name'', JStr (name example_user)), (lit ''role'', JStr (role example_user)),
                (lit ''about'', about_dict (about example_user))]"
  have d: "stored_doc ?w = JObj [(lit ''user'', user_dict example_user)]"
    by (rule example_world_doc)
  have m: "map_of [(lit ''user'', user_dict example_user)] (lit ''user'') = Some (JObj ?ukvs)"
    by (simp add: user_dict_obj)
  have before: "user_field ?w (lit ''role'') = Some (JStr (lit ''Student''))"
    unfolding user_field_dict [OF d m] by (simp add: example_user_def)
  show ?thesis
    using update_user_role_iff [OF d m,
        of "\<lparr>upd_role = Some (lit ''Engineer''), upd_about = None\<rparr>"]
      update_user_role_iff [OF d m, of "\<lparr>upd_role = Some [], upd_about = None\<rparr>"]
      update_user_role_iff [OF d m, of "\<lparr>upd_role = None, upd_about = Some empty_about\<rparr>"]
    by (simp add: before)
qed

text \<open>
  C7. With a profile stored whose \<open>about\<close> is present with all four fields empty strings,
  \<^verbatim>\<open>motivation\<close> does not fail with status 400: it generates a message, opens the SMTP
  session and, when the session succeeds, answers with the message it mailed. With
  \<open>about\<close> absent or a record, the 400 failure "No about section found" occurs exactly
  when \<open>about\<close> is absent or the empty record.
\<close>

theorem motivation_about_validation:
  assumes "stored_doc w = JObj dkvs" and "map_of dkvs (lit ''user'') = Some (JObj ukvs)"
  shows "(map_of ukvs (lit ''about'') = Some (about_dict empty_about) \<longrightarrow>
          snd (motivation e w) \<noteq> Inl (HTTPException 400 (lit ''No about section found'')) \<and>
          smtp_sessions (fst (motivation e w)) = Suc (smtp_sessions w) \<and>
          (\<exists>g. generate_motivation e (about_dict empty_about) = Inr g \<and>
               (smtp e (smtp_sessions w) = SmtpOk \<longrightarrow>
                  snd (motivation e w) =
                    Inr (JObj [(lit ''motivation'', JStr (replace_stars g)),
                               (lit ''email_sent_to'', JStr recipient)]) \<and>
                  outbox (fst (motivation e w)) =
                    outbox w @ [\<lparr>mail_from = sender e, mail_to = recipient,
                                 mail_subject = lit ''Your Daily Motivation'',
                                 mail_html = html_body (replace_stars g)\<rparr>]))) \<and>
         (map_of ukvs (lit ''about'') = None \<or>
          (\<exists>kvs. map_of ukvs (lit ''about'') = Some (JObj kvs)) \<longrightarrow>
          (snd (motivation e w) = Inl (HTTPException 400 (lit ''No about section found'')) \<longleftrightarrow>
           map_of ukvs (lit ''about'') = None \<or> map_of ukvs (lit ''about'') = Some (JObj [])))"
proof -
  let ?kvs = "[(lit ''background'', JStr []), (lit ''dreams'', JStr []),
               (lit ''challenges'', JStr []), (lit ''values'', JStr [])]"
  have ad: "about_dict empty_about = JObj ?kvs"
    by (simp add: about_dict_def empty_about_def)
  have first: "snd (motivation e w) \<noteq> Inl (HTTPException 400 (lit ''No about section found'')) \<and>
          smtp_sessions (fst (motivation e w)) = Suc (smtp_sessions w) \<and>
          (\<exists>g. generate_motivation e (about_dict empty_about) = Inr g \<and>
               (smtp e (smtp_sessions w) = SmtpOk \<longrightarrow>
                  snd (motivation e w) =
                    Inr (JObj [(lit ''motivation'', JStr (replace_stars g)),
                               (lit ''email_sent_to'', JStr recipient)]) \<and>
                  outbox (fst (motivation e w)) =
                    outbox w @ [\<lparr>mail_from = sender e, mail_to = recipient,
                                 mail_subject = lit ''Your Daily Motivation'',
                                 mail_html = html_body (replace_stars g)\<rparr>]))"
    if a: "map_of ukvs (lit ''about'') = Some (about_dict empty_about)"
  proof -
    obtain g where g: "generate_motivation e (JObj ?kvs) = Inr g"
      using generate_motivation_total by blast
    have a': "map_of ukvs (lit ''about'') = Some (JObj ?kvs)" using a ad by simp
    have ne: "?kvs \<noteq> []" by simp
    note m = motivation_dict [OF assms a' ne g]
    have 1: "snd (motivation e w) \<noteq> Inl (HTTPException 400 (lit ''No about section found''))"
      by (simp add: m send_email_cases split: smtp_outcome.splits)
    have 2: "smtp_sessions (fst (motivation e w)) = Suc (smtp_sessions w)"
      by (simp add: m send_email_cases split: smtp_outcome.splits)
    have 3: "generate_motivation e (about_dict empty_about) = Inr g \<and>
               (smtp e (smtp_sessions w) = SmtpOk \<longrightarrow>
                  snd (motivation e w) =
                    Inr (JObj [(lit ''motivation'', JStr (replace_stars g)),
                               (lit ''email_sent_to'', JStr recipient)]) \<and>
                  outbox (fst (motivation e w)) =
                    outbox w @ [\<lparr>mail_from = sender e, mail_to = recipient,
                                 mail_subject = lit ''Your Daily Motivation'',
                                 mail_html = html_body (replace_stars g)\<rparr>])"
      using g by (simp add: ad m send_email_cases)
    from 1 2 3 show ?thesis by blast
  qed
  have second: "snd (motivation e w) = Inl (HTTPException 400 (lit ''No about section found'')) \<longleftrightarrow>
           map_of ukvs (lit ''about'') = None \<or> map_of ukvs (lit ''about'') = Some (JObj [])"
    if t: "map_of ukvs (lit ''about'') = None \<or>
           (\<exists>kvs. map_of ukvs (lit ''about'') = Some (JObj kvs))"
  proof (cases "map_of ukvs (lit ''about'') = None \<or> map_of ukvs (lit ''about'') = Some (JObj [])")
    case True
    then show ?thesis by (simp add: motivation_no_about [OF assms True] bad_input_def)
  next
    case False
    with t obtain kvs where k: "map_of ukvs (lit ''about'') = Some (JObj kvs)" "kvs \<noteq> []"
      by auto
    obtain g where g: "generate_motivation e (JObj kvs) = Inr g"
      using generate_motivation_total by blast
    have "snd (motivation e w) \<noteq> Inl (HTTPException 400 (lit ''No about section found''))"
      by (simp add: motivation_dict [OF assms k g] send_email_cases split: smtp_outcome.splits)
    with False show ?thesis by simp
  qed
  from first second show ?thesis by blast
qed

theorem motivation_about_validation_witness:
  "snd (motivation (example_env ApiRaises SmtpOk)
          (world_with (JObj [(lit ''user'',
             user_dict \<lparr>name = lit ''A'', role = lit ''Student'', about = empty_about\<rparr>)]))) \<noteq>
     Inl (HTTPException 400 (lit ''No about section found'')) \<and>
   snd (motivation (example_env ApiRaises SmtpOk)
          (world_with (JObj [(lit ''user'', JObj [(lit ''name'', JStr (lit ''A''))])]))) =
     Inl (HTTPException 400 (lit ''No about section found''))"
proof -
  let ?e = "example_env ApiRaises SmtpOk"
  let ?u1 = "[(lit ''name'', JStr (lit ''A'')), (lit ''role'', JStr (lit ''Student'')),
              (lit ''about'', about_dict empty_about)]"
  let ?u2 = "[(lit ''name'', JStr (lit ''A''))]"
  have ud: "user_dict \<lparr>name = lit ''A'', role = lit ''Student'', about = empty_about\<rparr> = JObj ?u1"
    by (simp add: user_dict_def)
  have d1: "stored_doc (world_with (JObj [(lit ''user'', JObj ?u1)])) = JObj [(lit ''user'', JObj ?u1)]"
    and d2: "stored_doc (world_with (JObj [(lit ''user'', JObj ?u2)])) = JObj [(lit ''user'', JObj ?u2)]"
    by (simp_all add: world_with_def stored_doc_def)
  have m1: "map_of [(lit ''user'', JObj ?u1)] (lit ''user'') = Some (JObj ?u1)"
    and m2: "map_of [(lit ''user'', JObj ?u2)] (lit ''user'') = Some (JObj ?u2)"
    by simp_all
  have a1: "map_of ?u1 (lit ''about'') = Some (about_dict empty_about)"
    and a2: "map_of ?u2 (lit ''about'') = None"
    by simp_all
  show ?thesis
    unfolding ud
    using motivation_about_validation [OF d1 m1, of ?e] a1
      motivation_about_validation [OF d2 m2, of ?e] a2
    by blast
qed

text \<open>
  C8. When \<^verbatim>\<open>motivation\<close> succeeds, its body has the two keys "motivation" and
  "email_sent_to": the first is the message generated from the stored \<open>about\<close> with the
  "**" markers taken out, so that no "**" is left in it, and it is the text that was
  mailed; the second is the fixed recipient address.
\<close>

theorem motivation_success_body:
  assumes "snd (motivation e w) = Inr body"
  shows "\<exists>about_v g.
           user_field w (lit ''about'') = Some about_v \<and>
           generate_motivation e about_v = Inr g \<and>
           body = JObj [(lit ''motivation'', JStr (replace_stars g)),
                        (lit ''email_sent_to'', JStr (lit ''shuaibkaloor123@gmail.com''))] \<and>
           \<not> is_substr (lit ''**'') (replace_stars g) \<and>
           outbox (fst (motivation e w)) =
             outbox w @ [\<lparr>mail_from = sender e, mail_to = lit ''shuaibkaloor123@gmail.com'',
                          mail_subject = lit ''Your Daily Motivation'',
                          mail_html = html_body (replace_stars g)\<rparr>]"
proof -
  have star: "lit ''**'' = [42, 42]" by (simp add: lit_def)
  obtain dkvs where d: "stored_doc w = JObj dkvs"
    using assms
    by (cases "stored_doc w")
      (auto simp add: motivation_def read_data_eq bind_def Let_def not_found_def
        split: if_splits sum.splits prod.splits)
  obtain uv where uv: "map_of dkvs (lit ''user'') = Some uv"
    using assms d
    by (cases "map_of dkvs (lit ''user'')")
      (auto simp add: motivation_def read_data_eq bind_def Let_def not_found_def)
  obtain ukvs where u: "uv = JObj ukvs"
    using assms d uv
    by (cases uv) (auto simp add: motivation_def read_data_eq bind_def Let_def)
  obtain av where av: "map_of ukvs (lit ''about'') = Some av" and tr: "truthy av"
    using assms d uv u
    by (cases "map_of ukvs (lit ''about'')")
      (auto simp add: motivation_def read_data_eq bind_def Let_def bad_input_def
        split: if_splits)
  obtain g where g: "generate_motivation e av = Inr g"
    using assms d uv u av tr
    by (cases "generate_motivation e av")
      (auto simp add: motivation_def read_data_eq bind_def Let_def)
  have ok: "smtp e (smtp_sessions w) = SmtpOk"
    using assms d uv u av tr g
    by (cases "smtp e (smtp_sessions w)")
      (auto simp add: motivation_def read_data_eq bind_def Let_def send_email_cases)
  have uf: "user_field w (lit ''about'') = Some av"
    using d uv u av by (simp add: user_field_def)
  have res: "motivation e w =
     (w\<lparr>json_file := Some (stored_doc w), smtp_sessions := Suc (smtp_sessions w),
         outbox := outbox w @ [\<lparr>mail_from = sender e, mail_to = recipient,
            mail_subject = lit ''Your Daily Motivation'',
            mail_html = html_body (replace_stars g)\<rparr>]\<rparr>,
      Inr (JObj [(lit ''motivation'', JStr (replace_stars g)),
                 (lit ''email_sent_to'', JStr recipient)]))"
    using d uv u av tr g ok
    by (simp add: motivation_def read_data_eq bind_def Let_def send_email_cases)
  show ?thesis
    using assms uf g replace_stars_clean [of g]
    by (intro exI [of _ av] exI [of _ g]) (simp add: res star recipient_def)
qed

theorem motivation_success_body_witness:
  "snd (motivation (example_env (ApiText (Some (lit '' Keep **going**, A*  ''))) SmtpOk)
          (world_with (JObj [(lit ''user'', user_dict example_user)]))) =
     Inr (JObj [(lit ''motivation'', JStr (lit ''Keep going, A*'')),
                (lit ''email_sent_to'', JStr (lit ''shuaibkaloor123@gmail.com''))]) \<and>
   \<not> is_substr (lit ''**'') (lit ''Keep going, A*'')"
proof -
  let ?e = "example_env (ApiText (Some (lit '' Keep **going**, A*  ''))) SmtpOk"
  let ?w = "world_with (JObj [(lit ''user'', user_dict example_user)])"
  have ev: "snd (motivation ?e ?w) =
     Inr (JObj [(lit ''motivation'', JStr (lit ''Keep going, A*'')),
                (lit ''email_sent_to'', JStr (lit ''shuaibkaloor123@gmail.com''))])"
    by (simp add: motivation_def read_data_def world_with_def bind_def user_dict_def
        about_dict_def generate_motivation_dict example_env_def send_email_cases recipient_def
        strip_def is_space_def lit_def Let_def)
  from motivation_success_body [OF ev] ev show ?thesis by auto
qed

text \<open>
  C9. A failure of the SMTP session, at whichever of its steps, is caught neither by
  \<^verbatim>\<open>send_email\<close> nor by \<^verbatim>\<open>motivation\<close>: it comes out of both as an unhandled error
  (status 500), after exactly one session was attempted and with nothing delivered.
\<close>

theorem smtp_failure_propagates:
  assumes "smtp e (smtp_sessions w) = SmtpFails st"
  shows "send_email e s b t w =
           (w\<lparr>smtp_sessions := Suc (smtp_sessions w)\<rparr>, Inl (Unhandled (SMTPError st))) \<and>
         (stored_doc w = JObj dkvs \<and> map_of dkvs (lit ''user'') = Some (JObj ukvs) \<and>
          map_of ukvs (lit ''about'') = Some (JObj kvs) \<and> kvs \<noteq> [] \<longrightarrow>
            snd (motivation e w) = Inl (Unhandled (SMTPError st)) \<and>
            status_code (snd (motivation e w)) = 500 \<and>
            smtp_sessions (fst (motivation e w)) = Suc (smtp_sessions w) \<and>
            outbox (fst (motivation e w)) = outbox w)"
proof -
  have sent: "send_email e s b t w =
           (w\<lparr>smtp_sessions := Suc (smtp_sessions w)\<rparr>, Inl (Unhandled (SMTPError st)))"
    using assms by (simp add: send_email_cases)
  have handler: "snd (motivation e w) = Inl (Unhandled (SMTPError st)) \<and>
            status_code (snd (motivation e w)) = 500 \<and>
            smtp_sessions (fst (motivation e w)) = Suc (smtp_sessions w) \<and>
            outbox (fst (motivation e w)) = outbox w"
    if a: "stored_doc w = JObj dkvs" "map_of dkvs (lit ''user'') = Some (JObj ukvs)"
      "map_of ukvs (lit ''about'') = Some (JObj kvs)" "kvs \<noteq> []"
  proof -
    obtain g where g: "generate_motivation e (JObj kvs) = Inr g"
      using generate_motivation_total by blast
    show ?thesis
      using assms by (simp add: motivation_dict [OF a g] send_email_cases)
  qed
  from sent handler show ?thesis by blast
qed

theorem smtp_failure_propagates_witness:
  "snd (motivation (example_env ApiRaises (SmtpFails Login))
          (world_with (JObj [(lit ''user'', user_dict example_user)]))) =
     Inl (Unhandled (SMTPError Login)) \<and>
   status_code (snd (motivation (example_env ApiRaises (SmtpFails Login))
          (world_with (JObj [(lit ''user'', user_dict example_user)])))) = 500 \<and>
   smtp_sessions (fst (motivation (example_env ApiRaises (SmtpFails Login))
          (world_with (JObj [(lit ''user'', user_dict example_user)])))) = 1 \<and>
   outbox (fst (motivation (example_env ApiRaises (SmtpFails Login))
          (world_with (JObj [(lit ''user'', user_dict example_user)])))) = []"
proof -
  let ?e = "example_env ApiRaises (SmtpFails Login)"
  let ?kvs = "[(lit ''background'', JStr (lit ''b'')), (lit ''dreams'', JStr (lit ''d'')),
               (lit ''challenges'', JStr (lit ''c'')), (lit ''values'', JStr (lit ''v''))]"
  let ?ukvs = "[(lit ''name'', JStr (lit ''A'')), (lit ''role'', JStr (lit ''Student'')),
                (lit ''about'', JObj ?kvs)]"
  let ?dkvs = "[(lit ''user'', JObj ?ukvs)]"
  let ?w = "world_with (JObj ?dkvs)"
  have ud: "user_dict example_user = JObj ?ukvs"
    by (simp add: user_dict_def about_dict_def example_user_def example_about_def)
  have f: "smtp ?e (smtp_sessions ?w) = SmtpFails Login"
    by (simp add: example_env_def)
  have a: "stored_doc ?w = JObj ?dkvs \<and> map_of ?dkvs (lit ''user'') = Some (JObj ?ukvs) \<and>
       map_of ?ukvs (lit ''about'') = Some (JObj ?kvs) \<and> ?kvs \<noteq> []"
    by (simp add: world_with_def stored_doc_def)
  have n: "smtp_sessions ?w = 0" "outbox ?w = []"
    by (simp_all add: world_with_def)
  show ?thesis
    unfolding ud
    using smtp_failure_propagates [OF f, of "[]" "[]" "[]" ?dkvs ?ukvs ?kvs] a n by simp
qed

text \<open>
  C10. The message does not depend on the stored name and role: for two stored profiles
  with the same \<open>about\<close>, under the same date, random draw, API behaviour and SMTP
  outcome, \<^verbatim>\<open>motivation\<close> gives the same response and mails the same message.
\<close>

theorem motivation_noninterference:
  assumes "stored_doc w1 = JObj d1" and "map_of d1 (lit ''user'') = Some (JObj u1)"
    and "stored_doc w2 = JObj d2" and "map_of d2 (lit ''user'') = Some (JObj u2)"
    and "map_of u1 (lit ''about'') = map_of u2 (lit ''about'')"
    and "smtp_sessions w1 = smtp_sessions w2"
  shows "snd (motivation e w1) = snd (motivation e w2) \<and>
         drop (length (outbox w1)) (outbox (fst (motivation e w1))) =
         drop (length (outbox w2)) (outbox (fst (motivation e w2)))"
  using assms
  by (simp add: motivation_def read_data_eq bind_def Let_def send_email_cases
      split: sum.splits smtp_outcome.splits)

theorem motivation_noninterference_witness:
  "snd (motivation (example_env (ApiText (Some (lit ''Go''))) SmtpOk)
          (world_with (JObj [(lit ''user'', user_dict example_user)]))) =
   snd (motivation (example_env (ApiText (Some (lit ''Go''))) SmtpOk)
          (world_with (JObj [(lit ''user'',
             user_dict \<lparr>name = lit ''B'', role = lit ''Teacher'', about = example_about\<rparr>)])))"
proof -
  let ?e = "example_env (ApiText (Some (lit ''Go''))) SmtpOk"
  let ?u1 = "[(lit ''name'', JStr (lit ''A'')), (lit ''role'', JStr (lit ''Student'')),
              (lit ''about'', about_dict example_about)]"
  let ?u2 = "[(lit ''name'', JStr (lit ''B'')), (lit ''role'', JStr (lit ''Teacher'')),
              (lit ''about'', about_dict example_about)]"
  have ud1: "user_dict example_user = JObj ?u1"
    by (simp add: user_dict_def example_user_def)
  have ud2: "user_dict \<lparr>name = lit ''B'', role = lit ''Teacher'', about = example_about\<rparr> = JObj ?u2"
    by (simp add: user_dict_def)
  have d1: "stored_doc (world_with (JObj [(lit ''user'', JObj ?u1)])) = JObj [(lit ''user'', JObj ?u1)]"
    and d2: "stored_doc (world_with (JObj [(lit ''user'', JObj ?u2)])) = JObj [(lit ''user'', JObj ?u2)]"
    by (simp_all add: world_with_def stored_doc_def)
  have m1: "map_of [(lit ''user'', JObj ?u1)] (lit ''user'') = Some (JObj ?u1)"
    and m2: "map_of [(lit ''user'', JObj ?u2)] (lit ''user'') = Some (JObj ?u2)"
    by simp_all
  have ab: "map_of ?u1 (lit ''about'') = map_of ?u2 (lit ''about'')" by simp
  have n: "smtp_sessions (world_with (JObj [(lit ''user'', JObj ?u1)])) =
           smtp_sessions (world_with (JObj [(lit ''user'', JObj ?u2)]))"
    by (simp add: world_with_def)
  show ?thesis
    unfolding ud1 ud2
    using motivation_noninterference [OF d1 m1 d2 m2 ab n, of ?e] by blast
qed

end
